theory Spec2Isabelle
  imports Complex_Main "HOL-Library.Sublist" "HOL-Library.Multiset"
begin

section \<open>Python primitives used by the two engines\<close>

text \<open>
  Python floats are values of type \<^typ>\<open>real\<close> and Python ints of type \<^typ>\<open>int\<close>.
  Every operation of the source that can raise is a function into \<open>error + 'a\<close>,
  with \<open>Inl\<close> for the exception.
\<close>

datatype error =
    ValidationError      \<comment> \<open>pydantic rejects a field of \<open>FinancialParams\<close>\<close>
  | ZeroDivisionError    \<comment> \<open>\<open>/\<close>, \<open>%\<close> or \<open>**\<close> with a zero divisor\<close>
  | ValueError           \<comment> \<open>\<open>math.log\<close> of a non-positive number (math domain error)\<close>
  | StatisticsError      \<comment> \<open>\<open>statistics.mean\<close> of an empty list\<close>
  | OverflowError        \<comment> \<open>\<open>math.exp\<close> beyond the float range (math range error)\<close>

definition bind_err :: "error + 'a \<Rightarrow> ('a \<Rightarrow> error + 'b) \<Rightarrow> error + 'b" where
  "bind_err m f = (case m of Inl e \<Rightarrow> Inl e | Inr v \<Rightarrow> f v)"

text \<open>\<open>a / b\<close> over the reals (and the true division of two ints).\<close>

definition py_truediv :: "real \<Rightarrow> real \<Rightarrow> error + real" where
  "py_truediv a b = (if b = 0 then Inl ZeroDivisionError else Inr (a / b))"

text \<open>\<open>a % b\<close> on ints: floored, as \<open>mod\<close> on \<^typ>\<open>int\<close> is.\<close>

definition py_mod :: "int \<Rightarrow> int \<Rightarrow> error + int" where
  "py_mod a b = (if b = 0 then Inl ZeroDivisionError else Inr (a mod b))"

text \<open>\<open>x ** n\<close> for a float \<open>x\<close> and an int \<open>n\<close>.\<close>

definition py_pow :: "real \<Rightarrow> int \<Rightarrow> error + real" where
  "py_pow x n =
     (if 0 \<le> n then Inr (x ^ nat n)
      else if x = 0 then Inl ZeroDivisionError
      else Inr (1 / x ^ nat (- n)))"

text \<open>\<open>math.log(x)\<close> over the reals.\<close>

definition py_log :: "real \<Rightarrow> error + real" where
  "py_log x = (if x \<le> 0 then Inl ValueError else Inr (ln x))"

text \<open>\<open>statistics.mean(xs)\<close>.\<close>

definition statistics_mean :: "real list \<Rightarrow> error + real" where
  "statistics_mean xs =
     (if xs = [] then Inl StatisticsError else Inr (sum_list xs / real (length xs)))"

text \<open>
  \<open>s.lower()\<close> on strings of 8-bit characters: the letters \<open>A\<close> to \<open>Z\<close> are mapped
  to \<open>a\<close> to \<open>z\<close>, every other character is kept.
\<close>

definition lower_char :: "char \<Rightarrow> char" where
  "lower_char c =
     (case map_of (zip ''ABCDEFGHIJKLMNOPQRSTUVWXYZ'' ''abcdefghijklmnopqrstuvwxyz'') c of
        None \<Rightarrow> c
      | Some l \<Rightarrow> l)"

definition lower :: "string \<Rightarrow> string" where
  "lower s = map lower_char s"

text \<open>\<open>d.get(k, default)\<close> on a dictionary.\<close>

definition dict_get :: "('k \<rightharpoonup> 'v) \<Rightarrow> 'k \<Rightarrow> 'v \<Rightarrow> 'v" where
  "dict_get d k dflt = (case d k of None \<Rightarrow> dflt | Some v \<Rightarrow> v)"

subsection \<open>Binary64 arithmetic\<close>

text \<open>
  The formulas of the financial engine are modelled over the reals: there the results of
  the source differ from those of the model by rounding only. Where the outcome itself
  depends on rounding (the status thresholds of the density audit, the order of the
  additions of the polycentric density, \<open>1 + rate\<close> in the break-even term) the float
  operations are binary64 operations: the exact result rounded to the nearest binary64
  number, ties to even, with the spacing \<open>2 ^ - 1074\<close> below the normal range. An argument
  of type \<^typ>\<open>real\<close> stands for the exact value of the float passed, and a float literal
  \<open>0.8\<close> of the source is \<open>b64 0.8\<close>. A result beyond the binary64 range is kept as the
  rounded real, where the source holds \<open>inf\<close>.
\<close>

definition round_half_even :: "real \<Rightarrow> int" where
  "round_half_even x =
     (let f = \<lfloor>x\<rfloor>; d = x - real_of_int f in
      if d < 1 / 2 then f
      else if d > 1 / 2 then f + 1
      else if even f then f else f + 1)"

definition b64 :: "real \<Rightarrow> real" where
  "b64 x =
     (if x = 0 then 0
      else (let e = max \<lfloor>log 2 \<bar>x\<bar>\<rfloor> (- 1022);
                q = 2 powi (e - 52)
            in real_of_int (round_half_even (x / q)) * q))"

text \<open>\<open>a + b\<close>, \<open>a - b\<close>, \<open>a * b\<close> and \<open>a / b\<close> on floats.\<close>

definition float_add :: "real \<Rightarrow> real \<Rightarrow> real" where
  "float_add a b = b64 (a + b)"

definition float_sub :: "real \<Rightarrow> real \<Rightarrow> real" where
  "float_sub a b = b64 (a - b)"

definition float_mul :: "real \<Rightarrow> real \<Rightarrow> real" where
  "float_mul a b = b64 (a * b)"

definition float_truediv :: "real \<Rightarrow> real \<Rightarrow> error + real" where
  "float_truediv a b = (if b = 0 then Inl ZeroDivisionError else Inr (b64 (a / b)))"

text \<open>
  \<open>math.log(x)\<close> and \<open>math.exp(x)\<close>, taken as correctly rounded. \<open>float_exp\<close> is the
  exponential of the density engine: its argument is \<open>- g * x\<close>, which is not positive for
  the gradients and distances the engine is specified for, so that it cannot overflow.
\<close>

definition float_log :: "real \<Rightarrow> error + real" where
  "float_log x = (if x \<le> 0 then Inl ValueError else Inr (b64 (ln x)))"

definition float_exp :: "real \<Rightarrow> real" where
  "float_exp x = b64 (exp x)"

text \<open>
  \<open>math.exp(x)\<close> where its argument is not bounded: it raises \<open>OverflowError\<close> when the
  result exceeds the largest binary64 number.
\<close>

definition max_float :: real where
  "max_float = 2 ^ 1024 - 2 ^ 971"

definition py_exp :: "real \<Rightarrow> error + real" where
  "py_exp x = (if max_float < exp x then Inl OverflowError else Inr (exp x))"

section \<open>Financial audit engine (financial_audit.py)\<close>

subsection \<open>FinancialParams\<close>

record FinancialParams =
  upfront_fee :: real
  initial_annual_rent :: real
  lease_term_years :: int
  discount_rate :: real
  investment_cost :: real
  asset_useful_life_years :: int
  rent_escalation_rate :: real
  escalation_interval_years :: int

text \<open>The \<open>Field\<close> constraints of the model, and the validator \<open>check_lease_logic\<close>.\<close>

definition check_lease_logic :: "int \<Rightarrow> error + int" where
  "check_lease_logic v = (if v > 100 then Inl ValidationError else Inr v)"

definition field_constraints :: "FinancialParams \<Rightarrow> bool" where
  "field_constraints p \<longleftrightarrow>
     upfront_fee p \<ge> 0 \<and>
     initial_annual_rent p \<ge> 0 \<and>
     lease_term_years p > 0 \<and> lease_term_years p \<le> 100 \<and>
     discount_rate p \<ge> 0 \<and> discount_rate p \<le> 1 \<and>
     investment_cost p \<ge> 0 \<and>
     asset_useful_life_years p > 0 \<and>
     rent_escalation_rate p \<ge> 0 \<and>
     escalation_interval_years p > 0"

text \<open>
  Constructing a \<open>FinancialParams\<close>: the constraints are checked, then the field
  validator runs; the two defaulted fields are \<open>0.15\<close> and \<open>3\<close>.
\<close>

definition validate_params :: "FinancialParams \<Rightarrow> error + FinancialParams" where
  "validate_params p =
     (if field_constraints p
      then bind_err (check_lease_logic (lease_term_years p)) (\<lambda>v. Inr (p\<lparr>lease_term_years := v\<rparr>))
      else Inl ValidationError)"

definition new_FinancialParams ::
  "real \<Rightarrow> real \<Rightarrow> int \<Rightarrow> real \<Rightarrow> real \<Rightarrow> int \<Rightarrow> error + FinancialParams" where
  "new_FinancialParams upfront rent lease rate invest life =
     validate_params
       \<lparr>upfront_fee = upfront, initial_annual_rent = rent, lease_term_years = lease,
        discount_rate = rate, investment_cost = invest, asset_useful_life_years = life,
        rent_escalation_rate = 0.15, escalation_interval_years = 3\<rparr>"

subsection \<open>calculate_state_npv\<close>

text \<open>
  The escalation test \<open>year > 1 and (year - 1) % interval == 0\<close>; \<open>and\<close> does not
  evaluate its right operand when the left one is false.
\<close>

definition escalates :: "FinancialParams \<Rightarrow> int \<Rightarrow> error + bool" where
  "escalates p year =
     (if year > 1
      then bind_err (py_mod (year - 1) (escalation_interval_years p)) (\<lambda>m. Inr (m = 0))
      else Inr False)"

text \<open>
  The body of \<open>for year in range(1, lease_term + 1)\<close>, over the loop state
  \<open>(current_rent, npv)\<close>.
\<close>

fun npv_loop :: "FinancialParams \<Rightarrow> int list \<Rightarrow> real \<times> real \<Rightarrow> error + (real \<times> real)" where
  "npv_loop p [] (current_rent, npv) = Inr (current_rent, npv)"
| "npv_loop p (year # years) (current_rent, npv) =
     bind_err (escalates p year) (\<lambda>esc.
       let current_rent = (if esc then current_rent * (1 + rent_escalation_rate p) else current_rent) in
       bind_err (py_pow (1 + discount_rate p) year) (\<lambda>discount_factor.
       bind_err (py_truediv current_rent discount_factor) (\<lambda>discounted_rent.
         npv_loop p years (current_rent, npv + discounted_rent))))"

definition residual_value :: "FinancialParams \<Rightarrow> error + real" where
  "residual_value p =
     (let lease_term = lease_term_years p in
      if lease_term < asset_useful_life_years p
      then (let remaining_life = asset_useful_life_years p - lease_term in
            bind_err (py_truediv (real_of_int remaining_life) (real_of_int (asset_useful_life_years p)))
              (\<lambda>q. Inr (investment_cost p * q)))
      else Inr 0)"

definition calculate_state_npv :: "FinancialParams \<Rightarrow> error + real" where
  "calculate_state_npv p =
     (let npv = 0 + upfront_fee p;
          current_rent = initial_annual_rent p;
          lease_term = lease_term_years p in
      bind_err (npv_loop p [1..lease_term] (current_rent, npv)) (\<lambda>(current_rent, npv).
      bind_err (residual_value p) (\<lambda>residual_value.
      bind_err (py_pow (1 + discount_rate p) lease_term) (\<lambda>d.
      bind_err (py_truediv residual_value d) (\<lambda>discounted_terminal_value.
        Inr (npv + discounted_terminal_value))))))"

subsection \<open>validate_construction_cost\<close>

text \<open>
  The two shapes of the returned dictionary: \<open>{status, deviation_percent, message}\<close> for
  an unrecognised building type, and \<open>{status, deviation_percent, base_standard_cost,
  location_factor, adjusted_standard_cost, province_context}\<close> otherwise.
\<close>

datatype cost_validation =
    Unknown_Type_Result string real string
  | Cost_Result string real real real real string

definition base_benchmarks :: "string \<rightharpoonup> real" where
  "base_benchmarks = map_of [(''low-rise'', 15000), (''high-rise'', 30000)]"

definition location_factors :: "string \<rightharpoonup> real" where
  "location_factors =
     map_of [(''bangkok'', 1.0), (''phuket'', 1.15), (''chiang mai'', 1.05),
             (''chonburi'', 1.02), (''udon thani'', 0.95)]"

definition validate_construction_cost :: "real \<Rightarrow> string \<Rightarrow> string \<Rightarrow> error + cost_validation" where
  "validate_construction_cost proposed_cost_per_sqm building_type province =
     (let normalized_province = lower province;
          location_factor = dict_get location_factors normalized_province 1.0 in
      case base_benchmarks (lower building_type) of
        None \<Rightarrow>
          Inr (Unknown_Type_Result ''Unknown Type'' 0
                 (''Building type '' @ [CHR 0x27] @ building_type @ [CHR 0x27] @ '' not recognized.''))
      | Some base_standard \<Rightarrow>
          (let adjusted_standard_cost = base_standard * location_factor in
           bind_err (py_truediv (proposed_cost_per_sqm - adjusted_standard_cost) adjusted_standard_cost)
             (\<lambda>deviation.
               let deviation_percent = deviation * 100;
                   status = (if \<bar>deviation\<bar> > 0.20 then ''Cost Anomaly Detected'' else ''Pass'') in
               Inr (Cost_Result status deviation_percent base_standard location_factor
                      adjusted_standard_cost province))))"

subsection \<open>calculate_return_on_asset\<close>

text \<open>
  The returned dictionary; its \<open>status\<close> key is the field \<open>roa_status\<close>. The loop state is
  \<open>(current_rent, total_nominal_rent)\<close>.
\<close>

record roa_result =
  roa_percent :: real
  average_annual_benefit :: real
  roa_status :: string

fun roa_loop :: "FinancialParams \<Rightarrow> int list \<Rightarrow> real \<times> real \<Rightarrow> error + (real \<times> real)" where
  "roa_loop p [] (current_rent, total_nominal_rent) = Inr (current_rent, total_nominal_rent)"
| "roa_loop p (year # years) (current_rent, total_nominal_rent) =
     bind_err (escalates p year) (\<lambda>esc.
       let current_rent = (if esc then current_rent * (1 + rent_escalation_rate p) else current_rent) in
       roa_loop p years (current_rent, total_nominal_rent + current_rent))"

definition calculate_return_on_asset :: "FinancialParams \<Rightarrow> error + roa_result" where
  "calculate_return_on_asset p =
     bind_err (roa_loop p [1..lease_term_years p] (initial_annual_rent p, 0))
       (\<lambda>(current_rent, total_nominal_rent).
     bind_err (residual_value p) (\<lambda>terminal.
       let total_benefit = upfront_fee p + total_nominal_rent + terminal in
       bind_err (py_truediv total_benefit (real_of_int (lease_term_years p))) (\<lambda>average.
       bind_err (if investment_cost p > 0 then py_truediv average (investment_cost p) else Inr 0)
         (\<lambda>roa.
           let percent = roa * 100;
               status = (if percent < 3.0 then ''Below Target'' else ''On Target'') in
           Inr \<lparr>roa_percent = percent, average_annual_benefit = average,
                roa_status = status\<rparr>))))"

subsection \<open>calculate_breakeven_lease_term\<close>

text \<open>The returned float: \<open>float('inf')\<close> or a finite number of years.\<close>

datatype breakeven = Infinite | Years real

definition calculate_breakeven_lease_term :: "real \<Rightarrow> real \<Rightarrow> real \<Rightarrow> error + breakeven" where
  "calculate_breakeven_lease_term invest_cost annual_net_cashflow rate =
     (if annual_net_cashflow \<le> 0 then Inr Infinite
      else
        bind_err (float_truediv (float_mul invest_cost rate) annual_net_cashflow) (\<lambda>ratio.
          if ratio \<ge> 1 then Inr Infinite
          else
            bind_err (float_log (float_sub 1 ratio)) (\<lambda>a.
            bind_err (float_log (float_add 1 rate)) (\<lambda>b.
            bind_err (float_truediv (- a) b) (\<lambda>years. Inr (Years years))))))"

subsection \<open>perform_sensitivity_analysis\<close>

text \<open>
  The values of the \<open>base_params\<close> dictionary are Python numbers. pydantic turns an int
  into a float for a float field, and accepts a float for an int field only when it has
  no fractional part.
\<close>

datatype pynum = PyInt int | PyFloat real

fun as_float :: "pynum \<Rightarrow> real" where
  "as_float (PyInt i) = real_of_int i"
| "as_float (PyFloat x) = x"

fun as_int :: "pynum \<Rightarrow> error + int" where
  "as_int (PyInt i) = Inr i"
| "as_int (PyFloat x) = (if x = real_of_int \<lfloor>x\<rfloor> then Inr \<lfloor>x\<rfloor> else Inl ValidationError)"

definition run_scenario :: "pynum \<Rightarrow> pynum \<Rightarrow> pynum \<Rightarrow> pynum \<Rightarrow> int \<Rightarrow> real \<Rightarrow> error + real" where
  "run_scenario upfront initial_rent lease_years invest_cost asset_life rate =
     bind_err (as_int lease_years) (\<lambda>lease.
     bind_err (new_FinancialParams (as_float upfront) (as_float initial_rent) lease rate
                 (as_float invest_cost) asset_life)
       calculate_state_npv)"

record sensitivity_result =
  base_case :: real
  plus_2_rate :: real
  minus_2_rate :: real

definition perform_sensitivity_analysis :: "(string \<rightharpoonup> pynum) \<Rightarrow> error + sensitivity_result" where
  "perform_sensitivity_analysis base_params =
     (let upfront = dict_get base_params ''upfront_fee'' (PyInt 0);
          initial_rent = dict_get base_params ''initial_annual_rent'' (PyInt 0);
          lease_years = dict_get base_params ''lease_years'' (PyInt 30);
          invest_cost = dict_get base_params ''investment_cost'' (PyFloat 0);
          asset_life = 50;
          base_discount = 0.05;
          scenario = run_scenario upfront initial_rent lease_years invest_cost asset_life in
      bind_err (scenario base_discount) (\<lambda>base_npv.
      bind_err (scenario (base_discount + 0.02)) (\<lambda>plus.
      bind_err (scenario (base_discount - 0.02)) (\<lambda>minus.
        Inr \<lparr>base_case = base_npv, plus_2_rate = plus, minus_2_rate = minus\<rparr>))))"

section \<open>Density audit engine (bertaud_engine.py)\<close>

record BertaudAuditEngine =
  d0 :: real
  g :: real

subsection \<open>calculate_optimal_density\<close>

text \<open>\<open>transport_cost\<close> is a float or a callable.\<close>

datatype transport = Transport_Float real | Transport_Fn "real \<Rightarrow> real"

text \<open>The gap analysis dictionary; the empty dictionary is \<open>None\<close>.\<close>

record gap_report =
  legal_max_far :: real
  theoretical_demand_far :: real
  far_mismatch_gap :: real
  is_constraint_active :: bool
  policy_recommendation :: string

text \<open>\<open>"yellow" in color\<close>: the substring test.\<close>

fun contains :: "string \<Rightarrow> string \<Rightarrow> bool" where
  "contains sub [] = (sub = [])"
| "contains sub (c # cs) = (prefix sub (c # cs) \<or> contains sub cs)"

text \<open>
  Step 3 of the method: the thresholds and their contextual override. \<open>if zone_color:\<close>
  is false for \<open>None\<close> and for the empty string.
\<close>

definition upper_limit_of :: "string option \<Rightarrow> real" where
  "upper_limit_of zone_color =
     (let upper_limit = b64 1.2 in
      case zone_color of
        None \<Rightarrow> upper_limit
      | Some z \<Rightarrow>
          if z \<noteq> []
          then (let color = lower z in if contains ''yellow'' color then b64 1.1 else upper_limit)
          else upper_limit)"

text \<open>
  Both status chains of the method, in the order of the source: the first assignment is
  overwritten by the second (``Dynamic Logic'') chain. The thresholds are the floats the
  source computes: \<open>lower_limit - 0.1\<close> is a binary64 subtraction.
\<close>

definition audit_status :: "real \<Rightarrow> string option \<Rightarrow> string" where
  "audit_status efficiency_index zone_color =
     (let lower_limit = b64 0.8;
          upper_limit = upper_limit_of zone_color;
          status = ''Optimal'';
          status =
            (if efficiency_index < float_sub lower_limit (b64 0.1) then ''Under-utilization''
             else if efficiency_index < lower_limit then ''Low Density Warning''
             else if efficiency_index > float_add upper_limit (b64 0.1) then ''Over-densification''
             else if efficiency_index > upper_limit then ''High Density Warning''
             else status);
          optimal_low = lower_limit;
          optimal_high = float_sub upper_limit (b64 0.1);
          status =
            (if efficiency_index < float_sub optimal_low (b64 0.1) then ''Under-utilization''
             else if efficiency_index < optimal_low then ''Low Density Warning''
             else if efficiency_index \<le> optimal_high then ''Optimal''
             else if efficiency_index \<le> upper_limit then ''High Density Warning''
             else ''Over-densification'')
      in status)"

text \<open>Step 4 of the method: the gap analysis.\<close>

definition gap_of :: "real \<Rightarrow> real option \<Rightarrow> gap_report option" where
  "gap_of theoretical legal_far_limit =
     (case legal_far_limit of
        None \<Rightarrow> None
      | Some legal \<Rightarrow>
          (let far_gap = float_sub theoretical legal;
               is_constrained = (far_gap > 0);
               policy =
                 (if is_constrained \<and> far_gap > 1 then ''Request Zoning Upgrade (Upsize)''
                  else if \<not> is_constrained \<and> float_sub legal theoretical > 2
                    then ''Zone Over-supply (Focus on infrastructure)''
                  else ''None'')
           in Some \<lparr>legal_max_far = legal, theoretical_demand_far = theoretical,
                     far_mismatch_gap = far_gap, is_constraint_active = is_constrained,
                     policy_recommendation = policy\<rparr>))"

text \<open>The returned dictionary.\<close>

record density_result =
  distance_km :: real
  theoretical_density :: real
  proposed_density :: real
  efficiency_index :: real
  status :: string
  gap_analysis :: "gap_report option"
  input_land_cost :: real
  input_capital_k :: real

text \<open>
  The method itself. The parameters \<open>distance_km\<close> and \<open>proposed_density\<close> are written
  \<open>x_km\<close> and \<open>proposed\<close>: the result record has fields of these names.
\<close>

definition calculate_optimal_density ::
  "BertaudAuditEngine \<Rightarrow> real \<Rightarrow> real \<Rightarrow> transport \<Rightarrow> real \<Rightarrow> real \<Rightarrow> real option \<Rightarrow> string option
     \<Rightarrow> error + density_result" where
  "calculate_optimal_density self capital_k land_cost_e transport_cost x_km proposed
       legal_far_limit zone_color =
     (let theoretical = float_mul (d0 self) (float_exp (float_mul (- g self) x_km)) in
      bind_err (if theoretical = 0 then Inr 0 else float_truediv proposed theoretical) (\<lambda>eff.
        Inr \<lparr>distance_km = x_km,
             theoretical_density = theoretical,
             proposed_density = proposed,
             efficiency_index = eff,
             status = audit_status eff zone_color,
             gap_analysis = gap_of theoretical legal_far_limit,
             input_land_cost = land_cost_e,
             input_capital_k = capital_k\<rparr>))"

subsection \<open>calculate_polycentric_density\<close>

text \<open>
  \<open>distance_map\<close> and \<open>centers_config\<close> are dictionaries in insertion order: association
  lists, looked up with \<open>map_of\<close>. The loop state is \<open>total_density\<close>, a float that each
  contributing centre is added to in the order of \<open>distance_map\<close>.
\<close>

fun polycentric_loop ::
  "(string \<times> (string \<rightharpoonup> real)) list \<Rightarrow> (string \<times> real) list \<Rightarrow> real \<Rightarrow> real" where
  "polycentric_loop centers_config [] total_density = total_density"
| "polycentric_loop centers_config ((center_id, dist_km) # rest) total_density =
     (case map_of centers_config center_id of
        Some params \<Rightarrow>
          (let d0_i = dict_get params ''d0'' 0;
               g_i = dict_get params ''g'' 0 in
           polycentric_loop centers_config rest
             (float_add total_density (float_mul d0_i (float_exp (float_mul (- g_i) dist_km)))))
      | None \<Rightarrow> polycentric_loop centers_config rest total_density)"

definition calculate_polycentric_density ::
  "(string \<times> real) list \<Rightarrow> (string \<times> (string \<rightharpoonup> real)) list \<Rightarrow> real" where
  "calculate_polycentric_density distance_map centers_config =
     polycentric_loop centers_config distance_map 0"

subsection \<open>calibrate_parameters\<close>

text \<open>
  The regression is modelled over the reals, with the \<open>OverflowError\<close> of
  \<open>math.exp(intercept)\<close>. The comprehension
  \<open>[(x, math.log(y)) for x, y in samples if y > 0]\<close>:
\<close>

fun log_samples :: "(real \<times> real) list \<Rightarrow> error + (real \<times> real) list" where
  "log_samples [] = Inr []"
| "log_samples ((x, y) # rest) =
     (if y > 0
      then bind_err (py_log y) (\<lambda>ln_y.
           bind_err (log_samples rest) (\<lambda>vs. Inr ((x, ln_y) # vs)))
      else log_samples rest)"

definition calibrate_parameters :: "(real \<times> real) list \<Rightarrow> error + (real \<times> real)" where
  "calibrate_parameters samples =
     bind_err (log_samples samples) (\<lambda>valid_samples.
       if length valid_samples < 2 then Inr (0, 0)
       else
         (let xs = map fst valid_samples;
              ln_ys = map snd valid_samples in
          bind_err (statistics_mean xs) (\<lambda>x_mean.
          bind_err (statistics_mean ln_ys) (\<lambda>y_mean.
            let numerator = (\<Sum>(x, y) \<leftarrow> zip xs ln_ys. (x - x_mean) * (y - y_mean));
                denominator = (\<Sum>x \<leftarrow> xs. (x - x_mean) ^ 2) in
            if denominator = 0 then Inr (0, 0)
            else
              bind_err (py_truediv numerator denominator) (\<lambda>slope.
                let intercept = y_mean - slope * x_mean;
                    estimated_g = - slope in
                bind_err (py_exp intercept) (\<lambda>estimated_d0.
                  Inr (estimated_d0, estimated_g)))))))"

section \<open>The specification's formulas\<close>

subsection \<open>The net present value as the specification words it\<close>

text \<open>
  The rent of a year: the initial rent, multiplied by \<open>1 + rentEscalationRate\<close> once for
  every year \<open>k\<close> up to it with \<open>k > 1\<close> and \<open>(k - 1) mod escalationIntervalYears = 0\<close>.
\<close>

definition escalation_count :: "FinancialParams \<Rightarrow> int \<Rightarrow> nat" where
  "escalation_count p year =
     length (filter (\<lambda>k. k > 1 \<and> (k - 1) mod escalation_interval_years p = 0) [1..year])"

definition rent_of_year :: "FinancialParams \<Rightarrow> int \<Rightarrow> real" where
  "rent_of_year p year =
     initial_annual_rent p * (1 + rent_escalation_rate p) ^ escalation_count p year"

definition terminal_value :: "FinancialParams \<Rightarrow> real" where
  "terminal_value p =
     (if lease_term_years p < asset_useful_life_years p
      then investment_cost p *
             (real_of_int (asset_useful_life_years p - lease_term_years p)
                / real_of_int (asset_useful_life_years p))
      else 0)"

definition npv_formula :: "FinancialParams \<Rightarrow> real" where
  "npv_formula p =
     upfront_fee p
     + (\<Sum>year \<leftarrow> [1..lease_term_years p].
          rent_of_year p year / (1 + discount_rate p) ^ nat year)
     + terminal_value p / (1 + discount_rate p) ^ nat (lease_term_years p)"

subsection \<open>The zone colour of the specification\<close>


subsection \<open>The polycentric density as a sum\<close>

text \<open>
  The density one centre contributes at distance \<open>x\<close>; the entries of the distance map
  whose key the centre configuration has; and the float sum of their contributions, added
  from the left in the order of the distance map.
\<close>

definition center_density :: "(string \<rightharpoonup> real) \<Rightarrow> real \<Rightarrow> real" where
  "center_density params x =
     float_mul (dict_get params ''d0'' 0) (float_exp (float_mul (- dict_get params ''g'' 0) x))"

definition shared_entries ::
  "(string \<times> (string \<rightharpoonup> real)) list \<Rightarrow> (string \<times> real) list \<Rightarrow> (string \<times> real) list" where
  "shared_entries centers_config distance_map =
     filter (\<lambda>e. map_of centers_config (fst e) \<noteq> None) distance_map"

definition polycentric_sum ::
  "(string \<times> real) list \<Rightarrow> (string \<times> (string \<rightharpoonup> real)) list \<Rightarrow> real" where
  "polycentric_sum distance_map centers_config =
     foldl float_add 0
       (map (\<lambda>e. center_density (the (map_of centers_config (fst e))) (snd e))
          (shared_entries centers_config distance_map))"

subsection \<open>The parameter record of a sensitivity scenario\<close>

text \<open>
  The record every scenario of the sweep is run on: upfront fee, initial rent and
  investment cost from the dictionary, the lease term, the discount rate of the scenario,
  a useful life of 50 years and the two defaulted fields.
\<close>

definition scenario_params :: "(string \<rightharpoonup> pynum) \<Rightarrow> int \<Rightarrow> real \<Rightarrow> FinancialParams" where
  "scenario_params base_params lease rate =
     \<lparr>upfront_fee = as_float (dict_get base_params ''upfront_fee'' (PyInt 0)),
      initial_annual_rent = as_float (dict_get base_params ''initial_annual_rent'' (PyInt 0)),
      lease_term_years = lease,
      discount_rate = rate,
      investment_cost = as_float (dict_get base_params ''investment_cost'' (PyFloat 0)),
      asset_useful_life_years = 50,
      rent_escalation_rate = 0.15,
      escalation_interval_years = 3\<rparr>"

section \<open>Properties\<close>

lemma bind_err_Inr [simp]: "bind_err (Inr v) f = f v"
  by (simp add: bind_err_def)

lemma bind_err_Inl [simp]: "bind_err (Inl e) f = Inl e"
  by (simp add: bind_err_def)

subsection \<open>Binary64 rounding of concrete numbers\<close>

text \<open>Inside the binade \<open>[2 ^ e, 2 ^ (e + 1))\<close> the spacing of the floats is \<open>2 ^ (e - 52)\<close>.\<close>

lemma b64_eval:
  assumes "2 powi e \<le> \<bar>x\<bar>" and "\<bar>x\<bar> < 2 powi (e + 1)" and "- 1022 \<le> e"
  shows "b64 x = real_of_int (round_half_even (x / 2 powi (e - 52))) * 2 powi (e - 52)"
proof -
  have pos: "0 < \<bar>x\<bar>"
    using assms(1) by (smt (verit) zero_less_power_int)
  have p1: "(2::real) powr real_of_int e = 2 powi e"
    by (rule powr_real_of_int') simp_all
  have p2: "(2::real) powr real_of_int (e + 1) = 2 powi (e + 1)"
    by (rule powr_real_of_int') simp_all
  have "(2::real) powr real_of_int e \<le> \<bar>x\<bar> \<and> \<bar>x\<bar> < 2 powr (real_of_int e + 1)"
    using assms(1,2) p1 p2 by simp
  then have "\<lfloor>log 2 \<bar>x\<bar>\<rfloor> = e"
    using pos by (subst floor_log_eq_powr_iff) simp_all
  then show ?thesis
    using pos assms(3) by (simp add: b64_def Let_def max_def)
qed

lemma b64_0 [simp]: "b64 0 = 0"
  by (simp add: b64_def)

lemma b64_1 [simp]: "b64 1 = 1"
  by (subst b64_eval [where e = 0]) (simp_all add: round_half_even_def)

lemma b64_10: "b64 10 = 10"
  by (subst b64_eval [where e = 3]) (simp_all add: round_half_even_def)


lemma literal_0_1: "b64 0.1 = 3602879701896397 / 36028797018963968"
  by (subst b64_eval [where e = "- 4"]) (simp_all add: round_half_even_def)






subsection \<open>The net present value\<close>

lemma escalation_count_step:
  "1 \<le> a \<Longrightarrow> escalation_count p a =
     escalation_count p (a - 1) + (if a > 1 \<and> (a - 1) mod escalation_interval_years p = 0 then 1 else 0)"
  by (simp add: escalation_count_def upto_rec2 [of 1 a])

lemma rent_of_year_step:
  "1 \<le> a \<Longrightarrow> rent_of_year p a =
     (if a > 1 \<and> (a - 1) mod escalation_interval_years p = 0
      then rent_of_year p (a - 1) * (1 + rent_escalation_rate p)
      else rent_of_year p (a - 1))"
  by (simp add: rent_of_year_def escalation_count_step)

lemma escalates_valid:
  "escalation_interval_years p \<noteq> 0 \<Longrightarrow>
     escalates p year = Inr (year > 1 \<and> (year - 1) mod escalation_interval_years p = 0)"
  by (simp add: escalates_def py_mod_def)

lemma npv_loop_upto:
  assumes "escalation_interval_years p \<noteq> 0" and "1 + discount_rate p \<noteq> 0"
  shows "1 \<le> a \<Longrightarrow>
     npv_loop p [a..b] (rent_of_year p (a - 1), acc) =
       Inr (rent_of_year p (max (a - 1) b),
            acc + (\<Sum>year \<leftarrow> [a..b]. rent_of_year p year / (1 + discount_rate p) ^ nat year))"
proof (induction a b arbitrary: acc rule: upto.induct)
  case (1 i j)
  show ?case
  proof (cases "i \<le> j")
    case False
    then have "max (i - 1) j = i - 1" by simp
    with False show ?thesis by simp
  next
    case True
    have pow: "py_pow (1 + discount_rate p) i = Inr ((1 + discount_rate p) ^ nat i)"
      using "1.prems" by (simp add: py_pow_def)
    have dv: "py_truediv r ((1 + discount_rate p) ^ nat i) = Inr (r / (1 + discount_rate p) ^ nat i)" for r
      using assms(2) by (simp add: py_truediv_def)
    have ih: "npv_loop p [i + 1..j] (rent_of_year p i, acc') =
       Inr (rent_of_year p (max i j),
            acc' + (\<Sum>year \<leftarrow> [i + 1..j]. rent_of_year p year / (1 + discount_rate p) ^ nat year))" for acc'
      using "1.IH" [OF True, of acc'] "1.prems" by simp
    have mx: "max (i - 1) j = max i j" using True by simp
    show ?thesis
      unfolding upto_rec1 [OF True] mx
      by (simp add: escalates_valid [OF assms(1)] pow dv ih Let_def
            rent_of_year_step [OF "1.prems", symmetric] add.assoc)
  qed
qed

lemma rent_of_year_0: "rent_of_year p 0 = initial_annual_rent p"
  by (simp add: rent_of_year_def escalation_count_def)

lemma residual_value_valid:
  "asset_useful_life_years p > 0 \<Longrightarrow> residual_value p = Inr (terminal_value p)"
  by (simp add: residual_value_def terminal_value_def py_truediv_def Let_def)

lemma calculate_state_npv_valid:
  assumes "field_constraints p"
  shows "calculate_state_npv p = Inr (npv_formula p)"
proof -
  from assms have iv: "escalation_interval_years p \<noteq> 0" and dr: "1 + discount_rate p \<noteq> 0"
    and life: "asset_useful_life_years p > 0" and lease: "0 \<le> lease_term_years p"
    by (simp_all add: field_constraints_def)
  have loop: "npv_loop p [1..lease_term_years p] (initial_annual_rent p, upfront_fee p) =
      Inr (rent_of_year p (max 0 (lease_term_years p)),
           upfront_fee p + (\<Sum>year \<leftarrow> [1..lease_term_years p].
              rent_of_year p year / (1 + discount_rate p) ^ nat year))"
    using npv_loop_upto [OF iv dr, of 1 "lease_term_years p" "upfront_fee p"]
    by (simp add: rent_of_year_0)
  have pow: "py_pow (1 + discount_rate p) (lease_term_years p)
      = Inr ((1 + discount_rate p) ^ nat (lease_term_years p))"
    using lease by (simp add: py_pow_def)
  show ?thesis
    using dr by (simp add: calculate_state_npv_def Let_def loop residual_value_valid [OF life] pow
        py_truediv_def npv_formula_def)
qed

text \<open>
  Claim C1. For every validated \<open>FinancialParams\<close> record, \<open>calculate_state_npv\<close> returns
  the upfront fee, undiscounted, plus for each year from 1 to the lease term the rent of
  that year divided by \<open>(1 + discountRate) ^ year\<close>, plus the terminal value divided by
  \<open>(1 + discountRate) ^ leaseTerm\<close>, added once. The rent of a year is the initial rent
  multiplied by \<open>1 + rentEscalationRate\<close> once for every year up to it that is greater
  than 1 and has \<open>(year - 1) mod escalationIntervalYears = 0\<close>; the terminal value is
  \<open>investmentCost * (usefulLife - leaseTerm) / usefulLife\<close> when the lease is shorter than
  the useful life, and 0 otherwise.
\<close>

theorem calculate_state_npv_formula:
  assumes "field_constraints p"
  shows "calculate_state_npv p = Inr (npv_formula p)"
  using assms by (rule calculate_state_npv_valid)

theorem calculate_state_npv_formula_witness:
  "field_constraints
     \<lparr>upfront_fee = 100, initial_annual_rent = 16, lease_term_years = 4, discount_rate = 1,
      investment_cost = 32, asset_useful_life_years = 8, rent_escalation_rate = 0.5,
      escalation_interval_years = 3\<rparr>
   \<and> calculate_state_npv
     \<lparr>upfront_fee = 100, initial_annual_rent = 16, lease_term_years = 4, discount_rate = 1,
      investment_cost = 32, asset_useful_life_years = 8, rent_escalation_rate = 0.5,
      escalation_interval_years = 3\<rparr> = Inr 116.5"
proof -
  let ?p = "\<lparr>upfront_fee = 100, initial_annual_rent = 16, lease_term_years = 4, discount_rate = 1,
      investment_cost = 32, asset_useful_life_years = 8, rent_escalation_rate = 0.5,
      escalation_interval_years = 3\<rparr>"
  have fc: "field_constraints ?p" by (simp add: field_constraints_def)
  have years: "[1..4::int] = [1, 2, 3, 4]" "[1..3::int] = [1, 2, 3]" "[1..2::int] = [1, 2]"
    by (simp_all add: upto.simps)
  have "npv_formula ?p = 116.5"
    by (simp add: npv_formula_def rent_of_year_def escalation_count_def terminal_value_def years)
  with calculate_state_npv_formula [OF fc] fc show ?thesis by simp
qed

subsection \<open>The density audit\<close>



lemma calculate_optimal_density_result:
  "calculate_optimal_density self capital_k land_cost_e transport_cost x_km proposed
       legal_far_limit zone_color =
     (let theoretical = float_mul (d0 self) (float_exp (float_mul (- g self) x_km));
          eff = (if theoretical = 0 then 0 else b64 (proposed / theoretical)) in
      Inr \<lparr>distance_km = x_km,
           theoretical_density = theoretical,
           proposed_density = proposed,
           efficiency_index = eff,
           status = audit_status eff zone_color,
           gap_analysis = gap_of theoretical legal_far_limit,
           input_land_cost = land_cost_e,
           input_capital_k = capital_k\<rparr>)"
  by (simp add: calculate_optimal_density_def Let_def float_truediv_def)















text \<open>
  Claim C6. The density audit never fails on the division: the efficiency index of the
  result is the float quotient \<open>proposed / theoretical\<close> when the theoretical density is not
  0, and exactly 0 when it is 0.
\<close>

theorem efficiency_index_guarded:
  "\<exists>r. calculate_optimal_density self capital_k land_cost_e transport_cost x_km proposed
          legal_far_limit zone_color = Inr r
       \<and> theoretical_density r = float_mul (d0 self) (float_exp (float_mul (- g self) x_km))
       \<and> efficiency_index r =
           (if theoretical_density r = 0 then 0 else b64 (proposed / theoretical_density r))"
  by (simp add: calculate_optimal_density_result Let_def)

text \<open>
  Claim C10. Two calls on the same engine that differ only in \<open>capital_k\<close>, \<open>land_cost_e\<close>
  and \<open>transport_cost\<close> return the same theoretical density, efficiency index, status and
  gap analysis; \<open>capital_k\<close> and \<open>land_cost_e\<close> are only echoed in \<open>input_capital_k\<close> and
  \<open>input_land_cost\<close>, and \<open>transport_cost\<close> does not reach the result at all.
\<close>

theorem economic_inputs_ignored:
  "\<exists>r r'. calculate_optimal_density self capital_k land_cost_e transport_cost x_km proposed
              legal_far_limit zone_color = Inr r
         \<and> calculate_optimal_density self capital_k' land_cost_e' transport_cost' x_km proposed
              legal_far_limit zone_color = Inr r'
         \<and> theoretical_density r = theoretical_density r'
         \<and> efficiency_index r = efficiency_index r'
         \<and> status r = status r'
         \<and> gap_analysis r = gap_analysis r'
         \<and> input_capital_k r = capital_k \<and> input_land_cost r = land_cost_e
         \<and> input_capital_k r' = capital_k' \<and> input_land_cost r' = land_cost_e'
         \<and> r'\<lparr>input_capital_k := capital_k, input_land_cost := land_cost_e\<rparr> = r"
  by (simp add: calculate_optimal_density_result Let_def)

subsection \<open>Cost validation\<close>

lemma location_factor_cases:
  "dict_get location_factors s 1 \<in> {1, 1.15, 1.05, 1.02, 0.95}"
  by (simp add: dict_get_def location_factors_def)

lemma location_factor_pos: "dict_get location_factors s 1 > 0"
  using location_factor_cases [of s] by auto

lemma base_benchmarks_cases:
  "base_benchmarks s =
     (if s = ''low-rise'' then Some 15000 else if s = ''high-rise'' then Some 30000 else None)"
  by (simp add: base_benchmarks_def)

lemma lower_examples:
  "lower ''Phuket'' = ''phuket''" "lower ''Udon Thani'' = ''udon thani''"
  "lower ''high-rise'' = ''high-rise''" "lower ''High-Rise'' = ''high-rise''"
  "lower ''Atlantis'' = ''atlantis''" "lower ''villa'' = ''villa''"
  by (simp_all add: lower_def lower_char_def)

text \<open>
  Claim C8. \<open>validate_construction_cost\<close> looks the base benchmark up by the lower-cased
  building type (low-rise 15,000; high-rise 30,000) and returns the \<open>Unknown Type\<close> result
  with deviation 0 for any other type; the location factor is that of the lower-cased
  province, and 1.0 for a province that is not in the table; the adjusted standard is
  \<open>base * locationFactor\<close>, the deviation is \<open>(proposed - adjusted) / adjusted\<close> (the division
  never fails), and the status is \<open>Cost Anomaly Detected\<close> exactly when \<open>|deviation| > 0.20\<close>
  and \<open>Pass\<close> otherwise. High-rise in Phuket (factor 1.15) at 35,000 passes; high-rise in
  Udon Thani (factor 0.95) at 40,000 is an anomaly.
\<close>

theorem validate_construction_cost_spec:
  "validate_construction_cost proposed building_type province =
     (let locationFactor = dict_get location_factors (lower province) 1 in
      if lower building_type = ''low-rise'' \<or> lower building_type = ''high-rise'' then
        (let base = (if lower building_type = ''low-rise'' then 15000 else 30000);
             adjustedStandard = base * locationFactor;
             deviation = (proposed - adjustedStandard) / adjustedStandard in
         Inr (Cost_Result (if \<bar>deviation\<bar> > 0.20 then ''Cost Anomaly Detected'' else ''Pass'')
                (deviation * 100) base locationFactor adjustedStandard province))
      else
        Inr (Unknown_Type_Result ''Unknown Type'' 0
               (''Building type '' @ [CHR 0x27] @ building_type @ [CHR 0x27] @ '' not recognized.'')))
   \<and> (if location_factors (lower province) = None
      then dict_get location_factors (lower province) 1 = 1
      else dict_get location_factors (lower province) 1 > 0)
   \<and> validate_construction_cost 35000 ''high-rise'' ''Phuket''
       = Inr (Cost_Result ''Pass'' (100 * (500 / 34500)) 30000 1.15 34500 ''Phuket'')
   \<and> validate_construction_cost 40000 ''high-rise'' ''Udon Thani''
       = Inr (Cost_Result ''Cost Anomaly Detected'' (100 * (11500 / 28500)) 30000 0.95 28500 ''Udon Thani'')"
proof -
  have pos: "dict_get location_factors (lower province) 1 > 0"
    by (rule location_factor_pos)
  have general: "validate_construction_cost proposed building_type province =
     (let locationFactor = dict_get location_factors (lower province) 1 in
      if lower building_type = ''low-rise'' \<or> lower building_type = ''high-rise'' then
        (let base = (if lower building_type = ''low-rise'' then 15000 else 30000);
             adjustedStandard = base * locationFactor;
             deviation = (proposed - adjustedStandard) / adjustedStandard in
         Inr (Cost_Result (if \<bar>deviation\<bar> > 0.20 then ''Cost Anomaly Detected'' else ''Pass'')
                (deviation * 100) base locationFactor adjustedStandard province))
      else
        Inr (Unknown_Type_Result ''Unknown Type'' 0
               (''Building type '' @ [CHR 0x27] @ building_type @ [CHR 0x27] @ '' not recognized.'')))"
    using pos
    by (simp add: validate_construction_cost_def base_benchmarks_cases Let_def py_truediv_def)
  have unknown: "(if location_factors (lower province) = None
      then dict_get location_factors (lower province) 1 = 1
      else dict_get location_factors (lower province) 1 > 0)"
    using pos by (simp add: dict_get_def)
  have phuket: "validate_construction_cost 35000 ''high-rise'' ''Phuket''
       = Inr (Cost_Result ''Pass'' (100 * (500 / 34500)) 30000 1.15 34500 ''Phuket'')"
    by (simp add: validate_construction_cost_def base_benchmarks_cases Let_def py_truediv_def
        lower_examples dict_get_def location_factors_def)
  have udon: "validate_construction_cost 40000 ''high-rise'' ''Udon Thani''
       = Inr (Cost_Result ''Cost Anomaly Detected'' (100 * (11500 / 28500)) 30000 0.95 28500 ''Udon Thani'')"
    by (simp add: validate_construction_cost_def base_benchmarks_cases Let_def py_truediv_def
        lower_examples dict_get_def location_factors_def)
  from general unknown phuket udon show ?thesis by (intro conjI)
qed

subsection \<open>Break-even term and return on asset\<close>

text \<open>
  The float \<open>1e-17\<close> and the steps of the break-even term for an investment of 100 and a
  cash flow of 10 at this rate: the ratio is below 1, and \<open>1 + rate\<close> is the float 1.
\<close>

lemma literal_1e_17: "b64 (1 / 10 ^ 17) = 6490371073168535 / 649037107316853453566312041152512"
  by (subst b64_eval [where e = "- 57"]) (simp_all add: round_half_even_def)

lemma tiny_rate_product: "float_mul 100 (6490371073168535 / 649037107316853453566312041152512) = 2535301200456459 / 2535301200456458802993406410752"
  unfolding float_mul_def
  by (subst b64_eval [where e = "- 50"]) (simp_all add: round_half_even_def)

lemma tiny_rate_ratio: "float_truediv (2535301200456459 / 2535301200456458802993406410752) 10 = Inr (8112963841460669 / 81129638414606681695789005144064)"
  unfolding float_truediv_def
  by (subst b64_eval [where e = "- 54"]) (simp_all add: round_half_even_def)

lemma tiny_rate_complement: "float_sub 1 (8112963841460669 / 81129638414606681695789005144064) = 9007199254740991 / 9007199254740992"
  unfolding float_sub_def
  by (subst b64_eval [where e = "- 1"]) (simp_all add: round_half_even_def)

lemma tiny_rate_absorbed: "float_add 1 (6490371073168535 / 649037107316853453566312041152512) = 1"
  unfolding float_add_def
  by (subst b64_eval [where e = 0]) (simp_all add: round_half_even_def)

text \<open>
  Claim C3. With a positive cash flow and a ratio below 1 the call does not always return
  the finite value the claim states: at the valid discount rate 0, and at the rate
  \<open>1e-17\<close> (where \<open>1 + rate\<close> rounds to 1), \<open>ln (1 + rate)\<close> is 0 and
  \<open>calculate_breakeven_lease_term\<close> raises \<open>ZeroDivisionError\<close>.
\<close>

theorem breakeven_small_rate_raises:
  "calculate_breakeven_lease_term 100 10 0 = Inl ZeroDivisionError
   \<and> 0 < b64 (1 / 10 ^ 17)
   \<and> calculate_breakeven_lease_term 100 10 (b64 (1 / 10 ^ 17)) = Inl ZeroDivisionError"
proof -
  have zero: "calculate_breakeven_lease_term 100 10 0 = Inl ZeroDivisionError"
    by (simp add: calculate_breakeven_lease_term_def float_mul_def float_truediv_def
        float_sub_def float_add_def float_log_def)
  have pos: "0 < b64 (1 / 10 ^ 17)"
    unfolding literal_1e_17 by simp
  have tiny: "calculate_breakeven_lease_term 100 10 (b64 (1 / 10 ^ 17)) = Inl ZeroDivisionError"
    unfolding calculate_breakeven_lease_term_def literal_1e_17
    unfolding tiny_rate_product
    unfolding tiny_rate_ratio tiny_rate_absorbed
    by (simp add: tiny_rate_complement float_log_def float_truediv_def)
  from zero pos tiny show ?thesis by (intro conjI)
qed

lemma roa_loop_returns:
  "escalation_interval_years p \<noteq> 0 \<Longrightarrow> \<exists>s. roa_loop p years st = Inr s"
proof (induction years arbitrary: st)
  case Nil
  show ?case by (cases st) simp
next
  case (Cons year years)
  obtain r t where st: "st = (r, t)" by (cases st)
  from Cons show ?case
    unfolding st by (simp add: escalates_valid Let_def)
qed

text \<open>
  The other divisions are guarded: for a validated record \<open>calculate_return_on_asset\<close>
  returns a result, and the return on asset is 0 when the investment cost is 0.
\<close>

lemma calculate_return_on_asset_returns:
  assumes "field_constraints p"
  shows "\<exists>r. calculate_return_on_asset p = Inr r
             \<and> (investment_cost p = 0 \<longrightarrow> roa_percent r = 0)"
proof -
  from assms have iv: "escalation_interval_years p \<noteq> 0" and life: "asset_useful_life_years p > 0"
    and lease: "real_of_int (lease_term_years p) \<noteq> 0" and inv: "0 \<le> investment_cost p"
    by (simp_all add: field_constraints_def)
  obtain c t where loop: "roa_loop p [1..lease_term_years p] (initial_annual_rent p, 0) = Inr (c, t)"
    using roa_loop_returns [OF iv] by (metis surj_pair)
  show ?thesis
    using lease inv
    by (simp add: calculate_return_on_asset_def loop residual_value_valid [OF life]
        py_truediv_def Let_def)
qed

text \<open>
  Claim C4. The break-even division by \<open>ln (1 + discountRate)\<close> is not guarded: with the
  valid discount rate 0 and a positive cash flow, \<open>calculate_breakeven_lease_term\<close> raises
  \<open>ZeroDivisionError\<close>.
\<close>

theorem breakeven_zero_rate_raises:
  "calculate_breakeven_lease_term 500000000 40000000 0 = Inl ZeroDivisionError"
  by (simp add: calculate_breakeven_lease_term_def float_mul_def float_truediv_def
      float_sub_def float_add_def float_log_def)

subsection \<open>Polycentric density\<close>

lemma polycentric_loop_fold:
  "polycentric_loop cc dm acc =
     foldl float_add acc
       (map (\<lambda>e. center_density (the (map_of cc (fst e))) (snd e)) (shared_entries cc dm))"
  by (induction dm arbitrary: acc)
     (auto simp: shared_entries_def center_density_def Let_def split: option.splits)

lemma polycentric_sum_eq:
  "calculate_polycentric_density dm cc = polycentric_sum dm cc"
  by (simp add: calculate_polycentric_density_def polycentric_sum_def polycentric_loop_fold)

lemma polycentric_loop_lookup:
  "map_of cc' = map_of cc \<Longrightarrow> polycentric_loop cc' dm acc = polycentric_loop cc dm acc"
  by (induction dm arbitrary: acc) (auto split: option.splits)

lemma polycentric_permute_centers:
  assumes "distinct (map fst cc)" and "mset cc' = mset cc"
  shows "calculate_polycentric_density dm cc' = calculate_polycentric_density dm cc"
proof -
  have "mset (map fst cc') = mset (map fst cc)" using assms(2) by simp
  then have "distinct (map fst cc')"
    using assms(1) by (metis mset_eq_imp_distinct_iff)
  moreover have "set cc' = set cc" using assms(2) by (rule mset_eq_setD)
  ultimately have "map_of cc' = map_of cc"
    using assms(1) by (simp add: map_of_inject_set)
  then have "polycentric_loop cc' dm 0 = polycentric_loop cc dm 0"
    by (rule polycentric_loop_lookup)
  then show ?thesis
    unfolding calculate_polycentric_density_def .
qed

lemma polycentric_skip_unknown:
  "calculate_polycentric_density (shared_entries cc dm) cc = calculate_polycentric_density dm cc"
  by (simp add: polycentric_sum_eq polycentric_sum_def shared_entries_def)

text \<open>
  Claim C7, as amended. For a centre configuration with distinct keys,
  \<open>calculate_polycentric_density\<close> returns the float sum, added from the left in the order of
  the distance map, of \<open>d0 * exp (- g * x)\<close> over the entries whose key both mappings have;
  permuting the entries of the centre configuration leaves the result unchanged; and the
  entries of the distance map whose key is not in the centre configuration contribute
  nothing and cause no error: dropping them does not change the result.
\<close>

theorem polycentric_density_sum:
  assumes "distinct (map fst centers_config)"
  shows "calculate_polycentric_density distance_map centers_config
           = polycentric_sum distance_map centers_config
       \<and> (\<forall>cc'. mset cc' = mset centers_config \<longrightarrow>
              calculate_polycentric_density distance_map cc'
                = calculate_polycentric_density distance_map centers_config)
       \<and> calculate_polycentric_density (shared_entries centers_config distance_map) centers_config
           = calculate_polycentric_density distance_map centers_config"
proof (intro conjI allI impI)
  show "calculate_polycentric_density distance_map centers_config
          = polycentric_sum distance_map centers_config"
    by (rule polycentric_sum_eq)
next
  fix cc' :: "(string \<times> (string \<rightharpoonup> real)) list"
  assume "mset cc' = mset centers_config"
  with assms show "calculate_polycentric_density distance_map cc'
          = calculate_polycentric_density distance_map centers_config"
    by (rule polycentric_permute_centers)
next
  show "calculate_polycentric_density (shared_entries centers_config distance_map) centers_config
          = calculate_polycentric_density distance_map centers_config"
    by (rule polycentric_skip_unknown)
qed

lemma b64_5: "b64 5 = 5"
  by (subst b64_eval [where e = 2]) (simp_all add: round_half_even_def)

lemma b64_15: "b64 15 = 15"
  by (subst b64_eval [where e = 3]) (simp_all add: round_half_even_def)

theorem polycentric_density_sum_witness:
  "distinct (map fst [(''CBD_1'', map_of [(''d0'', 10 :: real), (''g'', 0.1)]),
                      (''CBD_2'', map_of [(''d0'', 5)])])
   \<and> calculate_polycentric_density [(''CBD_1'', 0), (''Port'', 7), (''CBD_2'', 0)]
         [(''CBD_1'', map_of [(''d0'', 10), (''g'', 0.1)]), (''CBD_2'', map_of [(''d0'', 5)])] = 15
   \<and> polycentric_sum [(''CBD_1'', 0), (''Port'', 7), (''CBD_2'', 0)]
         [(''CBD_1'', map_of [(''d0'', 10), (''g'', 0.1)]), (''CBD_2'', map_of [(''d0'', 5)])] = 15
   \<and> calculate_polycentric_density [(''CBD_1'', 0), (''Port'', 7), (''CBD_2'', 0)]
         [(''CBD_2'', map_of [(''d0'', 5)]), (''CBD_1'', map_of [(''d0'', 10), (''g'', 0.1)])] = 15
   \<and> calculate_polycentric_density [(''CBD_1'', 0), (''CBD_2'', 0)]
         [(''CBD_1'', map_of [(''d0'', 10), (''g'', 0.1)]), (''CBD_2'', map_of [(''d0'', 5)])] = 15"
proof -
  let ?dm = "[(''CBD_1'', 0 :: real), (''Port'', 7), (''CBD_2'', 0)]"
  let ?cc = "[(''CBD_1'', map_of [(''d0'', 10 :: real), (''g'', 0.1)]), (''CBD_2'', map_of [(''d0'', 5)])]"
  have d: "distinct (map fst ?cc)" by simp
  have v: "calculate_polycentric_density ?dm ?cc = 15"
    by (simp add: calculate_polycentric_density_def dict_get_def float_add_def float_mul_def
        float_exp_def b64_10 b64_5 b64_15)
  note t = polycentric_density_sum [OF d, of ?dm]
  have f: "polycentric_sum ?dm ?cc = 15"
    using t v by simp
  have p: "calculate_polycentric_density ?dm
      [(''CBD_2'', map_of [(''d0'', 5)]), (''CBD_1'', map_of [(''d0'', 10), (''g'', 0.1)])] = 15"
    using t [THEN conjunct2, THEN conjunct1, rule_format,
        of "[(''CBD_2'', map_of [(''d0'', 5)]), (''CBD_1'', map_of [(''d0'', 10), (''g'', 0.1)])]"] v
    by simp
  have s: "calculate_polycentric_density [(''CBD_1'', 0), (''CBD_2'', 0)] ?cc = 15"
    using t [THEN conjunct2, THEN conjunct2] v
    by (simp add: shared_entries_def)
  from d v f p s show ?thesis by (intro conjI)
qed

text \<open>
  The floats \<open>0.2\<close> and \<open>0.3\<close>, and the sums of \<open>0.1\<close>, \<open>0.2\<close> and \<open>0.3\<close> in both orders:
  \<open>(0.1 + 0.2) + 0.3\<close> is \<open>0.6000000000000001\<close> and \<open>(0.3 + 0.2) + 0.1\<close> is \<open>0.6\<close>.
\<close>

lemma literal_0_2: "b64 0.2 = 3602879701896397 / 18014398509481984"
  by (subst b64_eval [where e = "- 3"]) (simp_all add: round_half_even_def)

lemma literal_0_3: "b64 0.3 = 5404319552844595 / 18014398509481984"
  by (subst b64_eval [where e = "- 2"]) (simp_all add: round_half_even_def)

lemma float_0_1_fixed: "b64 (3602879701896397 / 36028797018963968) = 3602879701896397 / 36028797018963968"
  by (subst b64_eval [where e = "- 4"]) (simp_all add: round_half_even_def)

lemma float_0_2_fixed: "b64 (3602879701896397 / 18014398509481984) = 3602879701896397 / 18014398509481984"
  by (subst b64_eval [where e = "- 3"]) (simp_all add: round_half_even_def)

lemma float_0_3_fixed: "b64 (5404319552844595 / 18014398509481984) = 5404319552844595 / 18014398509481984"
  by (subst b64_eval [where e = "- 2"]) (simp_all add: round_half_even_def)

lemma sum_0_1_0_2: "b64 (10808639105689191 / 36028797018963968) = 1351079888211149 / 4503599627370496"
  by (subst b64_eval [where e = "- 2"]) (simp_all add: round_half_even_def)

lemma sum_0_1_0_2_0_3: "b64 (10808639105689191 / 18014398509481984) = 1351079888211149 / 2251799813685248"
  by (subst b64_eval [where e = "- 1"]) (simp_all add: round_half_even_def)

lemma sum_0_3_0_2: "b64 (1 / 2) = 1 / 2"
  by (subst b64_eval [where e = "- 1"]) (simp_all add: round_half_even_def)

lemma sum_0_3_0_2_0_1: "b64 (21617278211378381 / 36028797018963968) = 5404319552844595 / 9007199254740992"
  by (subst b64_eval [where e = "- 1"]) (simp_all add: round_half_even_def)

text \<open>
  The claim as stated fails for the distance map: with three centres of densities
  \<open>0.1\<close>, \<open>0.2\<close> and \<open>0.3\<close> at distance 0, the distance map in the order \<open>a, b, c\<close> gives
  \<open>0.6000000000000001\<close> and in the order \<open>c, b, a\<close> gives \<open>0.6\<close>.
\<close>

theorem polycentric_order_counterexample:
  "mset [(''c'', 0 :: real), (''b'', 0), (''a'', 0)] = mset [(''a'', 0), (''b'', 0), (''c'', 0)]
   \<and> calculate_polycentric_density [(''a'', 0), (''b'', 0), (''c'', 0)]
         [(''a'', map_of [(''d0'', b64 0.1)]), (''b'', map_of [(''d0'', b64 0.2)]),
          (''c'', map_of [(''d0'', b64 0.3)])]
       = 1351079888211149 / 2251799813685248
   \<and> calculate_polycentric_density [(''c'', 0), (''b'', 0), (''a'', 0)]
         [(''a'', map_of [(''d0'', b64 0.1)]), (''b'', map_of [(''d0'', b64 0.2)]),
          (''c'', map_of [(''d0'', b64 0.3)])]
       = 5404319552844595 / 9007199254740992
   \<and> calculate_polycentric_density [(''c'', 0), (''b'', 0), (''a'', 0)]
         [(''a'', map_of [(''d0'', b64 0.1)]), (''b'', map_of [(''d0'', b64 0.2)]),
          (''c'', map_of [(''d0'', b64 0.3)])]
       \<noteq> calculate_polycentric_density [(''a'', 0), (''b'', 0), (''c'', 0)]
         [(''a'', map_of [(''d0'', b64 0.1)]), (''b'', map_of [(''d0'', b64 0.2)]),
          (''c'', map_of [(''d0'', b64 0.3)])]"
proof -
  have perm: "mset [(''c'', 0 :: real), (''b'', 0), (''a'', 0)]
      = mset [(''a'', 0), (''b'', 0), (''c'', 0)]"
    by (simp add: add_mset_commute)
  have abc: "calculate_polycentric_density [(''a'', 0), (''b'', 0), (''c'', 0)]
         [(''a'', map_of [(''d0'', b64 0.1)]), (''b'', map_of [(''d0'', b64 0.2)]),
          (''c'', map_of [(''d0'', b64 0.3)])]
       = 1351079888211149 / 2251799813685248"
    unfolding literal_0_1 literal_0_2 literal_0_3
    by (simp add: calculate_polycentric_density_def dict_get_def float_add_def float_mul_def
        float_exp_def float_0_1_fixed float_0_2_fixed float_0_3_fixed sum_0_1_0_2 sum_0_1_0_2_0_3)
  have cba: "calculate_polycentric_density [(''c'', 0), (''b'', 0), (''a'', 0)]
         [(''a'', map_of [(''d0'', b64 0.1)]), (''b'', map_of [(''d0'', b64 0.2)]),
          (''c'', map_of [(''d0'', b64 0.3)])]
       = 5404319552844595 / 9007199254740992"
    unfolding literal_0_1 literal_0_2 literal_0_3
    by (simp add: calculate_polycentric_density_def dict_get_def float_add_def float_mul_def
        float_exp_def float_0_1_fixed float_0_2_fixed float_0_3_fixed sum_0_3_0_2 sum_0_3_0_2_0_1)
  have ne: "calculate_polycentric_density [(''c'', 0), (''b'', 0), (''a'', 0)]
         [(''a'', map_of [(''d0'', b64 0.1)]), (''b'', map_of [(''d0'', b64 0.2)]),
          (''c'', map_of [(''d0'', b64 0.3)])]
       \<noteq> calculate_polycentric_density [(''a'', 0), (''b'', 0), (''c'', 0)]
         [(''a'', map_of [(''d0'', b64 0.1)]), (''b'', map_of [(''d0'', b64 0.2)]),
          (''c'', map_of [(''d0'', b64 0.3)])]"
    unfolding abc cba by simp
  from perm abc cba ne show ?thesis by (intro conjI)
qed

subsection \<open>Calibration\<close>

text \<open>
  Two samples, of density 1 at 100 km and 0.0001 at 101 km: the slope is \<open>ln 0.0001\<close>, the
  intercept is \<open>100 * ln 10000\<close>, and its exponential is \<open>10 ^ 400\<close>.
\<close>

lemma steep_samples_intercept:
  "max_float < exp (- (100 * ln (1 / 10000 :: real)))"
proof -
  have "ln (1 / 10000 :: real) = - ln 10000"
    by (simp add: ln_div)
  then have "exp (- (100 * ln (1 / 10000 :: real))) = exp (of_nat 100 * ln 10000)"
    by simp
  also have "\<dots> = exp (ln 10000) ^ 100"
    by (rule exp_of_nat_mult)
  also have "\<dots> = 10000 ^ 100"
    by simp
  finally show ?thesis
    by (simp add: max_float_def)
qed

text \<open>
  Claim C5. The fit is not always returned: for these two valid samples with different
  distances \<open>math.exp(intercept)\<close> overflows and \<open>calibrate_parameters\<close> raises
  \<open>OverflowError\<close>.
\<close>

theorem calibrate_parameters_overflow:
  "calibrate_parameters [(100, 1), (101, 1 / 10000)] = Inl OverflowError"
proof -
  define L :: real where "L = ln (1 / 10000)"
  have samples: "log_samples [(100, 1), (101, 1 / 10000)] = Inr [(100, 0), (101, L)]"
    by (simp add: py_log_def L_def)
  have x_mean: "statistics_mean [100, 101] = Inr (201 / 2)"
    by (simp add: statistics_mean_def)
  have y_mean: "statistics_mean [0, L] = Inr (L / 2)"
    by (simp add: statistics_mean_def)
  have numerator: "(100 - 201 / 2) * (0 - L / 2) + ((101 - 201 / 2) * (L - L / 2) + 0) = L / 2"
    by (simp add: field_simps)
  have denominator: "(100 - 201 / 2 :: real) ^ 2 + ((101 - 201 / 2) ^ 2 + 0) = 1 / 2"
    by (simp add: power2_eq_square)
  have slope: "py_truediv (L / 2) (1 / 2) = Inr L"
    by (simp add: py_truediv_def)
  have intercept: "L / 2 - L * (201 / 2) = - (100 * L)"
    by (simp add: field_simps)
  have overflow: "py_exp (- (100 * L)) = Inl OverflowError"
    using steep_samples_intercept by (simp add: py_exp_def L_def)
  show ?thesis
    unfolding calibrate_parameters_def samples
    by (simp only: bind_err_Inr list.map list.size fst_conv snd_conv x_mean y_mean Let_def
        zip.simps list.case sum_list.Cons sum_list.Nil case_prod_conv numerator denominator
        slope intercept overflow bind_err_Inl) simp
qed

subsection \<open>Discount-rate sensitivity\<close>

lemma rent_of_year_rate [simp]: "rent_of_year (p\<lparr>discount_rate := r\<rparr>) y = rent_of_year p y"
  by (simp add: rent_of_year_def escalation_count_def)

lemma terminal_value_rate [simp]: "terminal_value (p\<lparr>discount_rate := r\<rparr>) = terminal_value p"
  by (simp add: terminal_value_def)

lemma rent_of_year_nonneg:
  "0 \<le> initial_annual_rent p \<Longrightarrow> 0 \<le> rent_escalation_rate p \<Longrightarrow> 0 \<le> rent_of_year p y"
  by (simp add: rent_of_year_def)

lemma rent_of_year_pos:
  "0 < initial_annual_rent p \<Longrightarrow> 0 \<le> rent_escalation_rate p \<Longrightarrow> 0 < rent_of_year p y"
  by (simp add: rent_of_year_def)

lemma terminal_value_nonneg:
  "0 \<le> investment_cost p \<Longrightarrow> 0 < asset_useful_life_years p \<Longrightarrow> 0 \<le> terminal_value p"
  by (simp add: terminal_value_def)

lemma npv_formula_ge_upfront:
  assumes "field_constraints p"
  shows "upfront_fee p \<le> npv_formula p"
proof -
  from assms have r: "0 < 1 + discount_rate p" and rent: "0 \<le> initial_annual_rent p"
    and esc: "0 \<le> rent_escalation_rate p" and inv: "0 \<le> investment_cost p"
    and life: "0 < asset_useful_life_years p"
    by (simp_all add: field_constraints_def)
  have "0 \<le> (\<Sum>year \<leftarrow> [1..lease_term_years p].
          rent_of_year p year / (1 + discount_rate p) ^ nat year)"
    using r rent_of_year_nonneg [OF rent esc] by (intro sum_list_nonneg) auto
  moreover have "0 \<le> terminal_value p / (1 + discount_rate p) ^ nat (lease_term_years p)"
    using r terminal_value_nonneg [OF inv life] by simp
  ultimately show ?thesis by (simp add: npv_formula_def)
qed

lemma npv_formula_rate_decreasing:
  assumes "field_constraints p" and "0 < initial_annual_rent p" and "discount_rate p < r'"
  shows "npv_formula (p\<lparr>discount_rate := r'\<rparr>) < npv_formula p"
proof -
  from assms(1) have r: "0 < 1 + discount_rate p" and esc: "0 \<le> rent_escalation_rate p"
    and inv: "0 \<le> investment_cost p" and life: "0 < asset_useful_life_years p"
    and lease: "0 < lease_term_years p"
    by (simp_all add: field_constraints_def)
  have lt: "1 + discount_rate p < 1 + r'" using assms(3) by simp
  have r': "0 < 1 + r'" using r lt by simp
  have pow_lt: "(1 + discount_rate p) ^ k < (1 + r') ^ k" if "0 < k" for k
    using lt r that by (intro power_strict_mono) simp_all
  have pow_le: "(1 + discount_rate p) ^ k \<le> (1 + r') ^ k" for k
    using lt r by (intro power_mono) simp_all
  have ne: "[1..lease_term_years p] \<noteq> []" using lease by simp
  have step: "rent_of_year p year / (1 + r') ^ nat year
                < rent_of_year p year / (1 + discount_rate p) ^ nat year"
    if "year \<in> set [1..lease_term_years p]" for year
  proof -
    from that have "0 < nat year" by simp
    from pow_lt [OF this] r r' rent_of_year_pos [OF assms(2) esc, of year]
    show ?thesis by (intro divide_strict_left_mono mult_pos_pos zero_less_power)
  qed
  have rents: "(\<Sum>year \<leftarrow> [1..lease_term_years p]. rent_of_year p year / (1 + r') ^ nat year)
      < (\<Sum>year \<leftarrow> [1..lease_term_years p]. rent_of_year p year / (1 + discount_rate p) ^ nat year)"
    using ne step by (rule sum_list_strict_mono)
  have tv: "terminal_value p / (1 + r') ^ nat (lease_term_years p)
      \<le> terminal_value p / (1 + discount_rate p) ^ nat (lease_term_years p)"
    using terminal_value_nonneg [OF inv life] pow_le r r'
    by (intro divide_left_mono mult_pos_pos zero_less_power)
  from rents tv show ?thesis by (simp add: npv_formula_def)
qed

lemma upto_from_1: "[1..numeral n] = (if (1::int) \<le> numeral n then 1 # [1 + 1..numeral n] else [])"
  by (rule upto.simps)

lemma validate_params_iff:
  "validate_params p = (if field_constraints p then Inr p else Inl ValidationError)"
  by (auto simp: validate_params_def check_lease_logic_def field_constraints_def)

lemma scenario_constraints_rate:
  "0 \<le> r \<Longrightarrow> r \<le> 1 \<Longrightarrow>
     field_constraints (scenario_params bp lease r) = field_constraints (scenario_params bp lease 0.05)"
  by (simp add: field_constraints_def scenario_params_def)

lemma run_scenario_result:
  assumes "as_int (dict_get bp ''lease_years'' (PyInt 30)) = Inr lease" and "0 \<le> r" and "r \<le> 1"
  shows "run_scenario (dict_get bp ''upfront_fee'' (PyInt 0))
           (dict_get bp ''initial_annual_rent'' (PyInt 0))
           (dict_get bp ''lease_years'' (PyInt 30))
           (dict_get bp ''investment_cost'' (PyFloat 0)) 50 r
         = (if field_constraints (scenario_params bp lease 0.05)
            then calculate_state_npv (scenario_params bp lease r)
            else Inl ValidationError)"
proof -
  have "new_FinancialParams (as_float (dict_get bp ''upfront_fee'' (PyInt 0)))
          (as_float (dict_get bp ''initial_annual_rent'' (PyInt 0))) lease r
          (as_float (dict_get bp ''investment_cost'' (PyFloat 0))) 50
        = validate_params (scenario_params bp lease r)"
    by (simp add: new_FinancialParams_def scenario_params_def)
  then show ?thesis
    using scenario_constraints_rate [OF assms(2,3), of bp lease]
    by (simp add: run_scenario_def assms(1) validate_params_iff)
qed

lemma sensitivity_sweep:
  "(case as_int (dict_get bp ''lease_years'' (PyInt 30)) of
      Inl e \<Rightarrow> perform_sensitivity_analysis bp = Inl e
    | Inr lease \<Rightarrow>
        if field_constraints (scenario_params bp lease 0.05)
        then (\<exists>b pl mi.
                calculate_state_npv (scenario_params bp lease 0.05) = Inr b
              \<and> calculate_state_npv (scenario_params bp lease (0.05 + 0.02)) = Inr pl
              \<and> calculate_state_npv (scenario_params bp lease (0.05 - 0.02)) = Inr mi
              \<and> perform_sensitivity_analysis bp
                  = Inr \<lparr>base_case = b, plus_2_rate = pl, minus_2_rate = mi\<rparr>)
        else perform_sensitivity_analysis bp = Inl ValidationError)"
proof (cases "as_int (dict_get bp ''lease_years'' (PyInt 30))")
  case (Inl e)
  then show ?thesis
    by (simp add: perform_sensitivity_analysis_def run_scenario_def Let_def)
next
  case (Inr lease)
  note rs = run_scenario_result [OF Inr]
  show ?thesis
  proof (cases "field_constraints (scenario_params bp lease 0.05)")
    case False
    then show ?thesis
      using Inr by (simp add: perform_sensitivity_analysis_def Let_def rs)
  next
    case True
    then have fc: "field_constraints (scenario_params bp lease r)" if "0 \<le> r" "r \<le> 1" for r
      using scenario_constraints_rate [OF that, of bp lease] by simp
    have n1: "calculate_state_npv (scenario_params bp lease 0.05)
                = Inr (npv_formula (scenario_params bp lease 0.05))"
      by (rule calculate_state_npv_valid [OF True])
    have n2: "calculate_state_npv (scenario_params bp lease (0.05 + 0.02))
                = Inr (npv_formula (scenario_params bp lease (0.05 + 0.02)))"
      by (rule calculate_state_npv_valid [OF fc]) simp_all
    have n3: "calculate_state_npv (scenario_params bp lease (0.05 - 0.02))
                = Inr (npv_formula (scenario_params bp lease (0.05 - 0.02)))"
      by (rule calculate_state_npv_valid [OF fc]) simp_all
    have "perform_sensitivity_analysis bp
            = Inr \<lparr>base_case = npv_formula (scenario_params bp lease 0.05),
                   plus_2_rate = npv_formula (scenario_params bp lease (0.05 + 0.02)),
                   minus_2_rate = npv_formula (scenario_params bp lease (0.05 - 0.02))\<rparr>"
      unfolding perform_sensitivity_analysis_def Let_def
      using True n1 n2 n3 by (simp add: rs)
    with n1 n2 n3 True Inr show ?thesis by simp
  qed
qed

lemma scenario_undiscounted:
  "npv_formula \<lparr>upfront_fee = 50000000, initial_annual_rent = 10000000, lease_term_years = 30,
        discount_rate = 0, investment_cost = 1000000000, asset_useful_life_years = 50,
        rent_escalation_rate = 0.15, escalation_interval_years = 3\<rparr> < 1060000000"
  by (simp add: npv_formula_def rent_of_year_def escalation_count_def terminal_value_def
      upto_from_1 power_divide)

lemma npv_scenario:
  "\<exists>P v w. new_FinancialParams 50000000 10000000 30 0.035 1000000000 50 = Inr P
      \<and> calculate_state_npv P = Inr v \<and> 0 < v \<and> v < 1060000000
      \<and> calculate_state_npv (P\<lparr>discount_rate := 0.035 + 0.02\<rparr>) = Inr w \<and> w < v"
proof -
  let ?P = "\<lparr>upfront_fee = 50000000, initial_annual_rent = 10000000, lease_term_years = 30,
        discount_rate = 0.035, investment_cost = 1000000000, asset_useful_life_years = 50,
        rent_escalation_rate = 0.15, escalation_interval_years = 3\<rparr>"
  have fc: "field_constraints ?P" by (simp add: field_constraints_def)
  have fc0: "field_constraints (?P\<lparr>discount_rate := 0\<rparr>)" by (simp add: field_constraints_def)
  have fc2: "field_constraints (?P\<lparr>discount_rate := 0.035 + 0.02\<rparr>)"
    by (simp add: field_constraints_def)
  have new: "new_FinancialParams 50000000 10000000 30 0.035 1000000000 50 = Inr ?P"
    using fc by (simp add: new_FinancialParams_def validate_params_iff)
  have v: "calculate_state_npv ?P = Inr (npv_formula ?P)"
    by (rule calculate_state_npv_valid [OF fc])
  have w: "calculate_state_npv (?P\<lparr>discount_rate := 0.035 + 0.02\<rparr>)
             = Inr (npv_formula (?P\<lparr>discount_rate := 0.035 + 0.02\<rparr>))"
    by (rule calculate_state_npv_valid [OF fc2])
  have pos: "0 < npv_formula ?P"
    using npv_formula_ge_upfront [OF fc] by simp
  have "npv_formula (?P\<lparr>discount_rate := 0\<rparr>\<lparr>discount_rate := 0.035\<rparr>)
          < npv_formula (?P\<lparr>discount_rate := 0\<rparr>)"
    by (rule npv_formula_rate_decreasing [OF fc0]) simp_all
  then have up: "npv_formula ?P < 1060000000"
    using scenario_undiscounted by simp
  have dec: "npv_formula (?P\<lparr>discount_rate := 0.035 + 0.02\<rparr>) < npv_formula ?P"
    by (rule npv_formula_rate_decreasing [OF fc]) simp_all
  from new v w pos up dec show ?thesis by blast
qed

text \<open>
  Claim C9. For upfront fee 50,000,000, initial rent 10,000,000, lease term 30, discount
  rate 0.035, investment cost 1,000,000,000 and useful life 50 (the other fields at their
  defaults) the record is accepted, \<open>calculate_state_npv\<close> returns a positive number (below
  1,060,000,000), and with the discount rate raised by 0.02 it returns a strictly smaller
  one. The sensitivity sweep fails only when pydantic rejects the dictionary's values;
  otherwise it returns exactly the three values of \<open>calculate_state_npv\<close> on records that
  share upfront fee, initial rent, lease term and investment cost and differ only in the
  discount rate: base, base + 0.02, base - 0.02.
\<close>

theorem npv_scenario_and_sensitivity:
  "(\<exists>P v w. new_FinancialParams 50000000 10000000 30 0.035 1000000000 50 = Inr P
      \<and> calculate_state_npv P = Inr v \<and> 0 < v \<and> v < 1060000000
      \<and> calculate_state_npv (P\<lparr>discount_rate := 0.035 + 0.02\<rparr>) = Inr w \<and> w < v)
   \<and> (case as_int (dict_get base_params ''lease_years'' (PyInt 30)) of
        Inl e \<Rightarrow> perform_sensitivity_analysis base_params = Inl e
      | Inr lease \<Rightarrow>
          if field_constraints (scenario_params base_params lease 0.05)
          then (\<exists>b pl mi.
                  calculate_state_npv (scenario_params base_params lease 0.05) = Inr b
                \<and> calculate_state_npv (scenario_params base_params lease (0.05 + 0.02)) = Inr pl
                \<and> calculate_state_npv (scenario_params base_params lease (0.05 - 0.02)) = Inr mi
                \<and> perform_sensitivity_analysis base_params
                    = Inr \<lparr>base_case = b, plus_2_rate = pl, minus_2_rate = mi\<rparr>)
          else perform_sensitivity_analysis base_params = Inl ValidationError)"
  using npv_scenario sensitivity_sweep [of base_params] by (intro conjI)

theorem npv_scenario_and_sensitivity_witness:
  "(\<exists>b pl mi.
      perform_sensitivity_analysis
        (map_of [(''upfront_fee'', PyInt 50000000), (''initial_annual_rent'', PyInt 12000000),
                 (''lease_years'', PyInt 30), (''investment_cost'', PyInt 0)])
        = Inr \<lparr>base_case = b, plus_2_rate = pl, minus_2_rate = mi\<rparr>)
   \<and> perform_sensitivity_analysis (map_of [(''lease_years'', PyInt 0)]) = Inl ValidationError
   \<and> perform_sensitivity_analysis (map_of [(''lease_years'', PyFloat 30.5)]) = Inl ValidationError"
proof -
  let ?bp = "map_of [(''upfront_fee'', PyInt 50000000), (''initial_annual_rent'', PyInt 12000000),
                 (''lease_years'', PyInt 30), (''investment_cost'', PyInt 0)]"
  have fc: "field_constraints (scenario_params ?bp 30 0.05)"
    by (simp add: field_constraints_def scenario_params_def dict_get_def)
  have a: "\<exists>b pl mi. perform_sensitivity_analysis ?bp
            = Inr \<lparr>base_case = b, plus_2_rate = pl, minus_2_rate = mi\<rparr>"
    using npv_scenario_and_sensitivity [of ?bp, THEN conjunct2] fc
    by (simp add: dict_get_def) blast
  have nfc: "\<not> field_constraints (scenario_params (map_of [(''lease_years'', PyInt 0)]) 0 0.05)"
    by (simp add: field_constraints_def scenario_params_def)
  have b: "perform_sensitivity_analysis (map_of [(''lease_years'', PyInt 0)]) = Inl ValidationError"
    using npv_scenario_and_sensitivity [of "map_of [(''lease_years'', PyInt 0)]", THEN conjunct2] nfc
    by (simp add: dict_get_def)
  have fl: "\<lfloor>30.5 :: real\<rfloor> = 30" by linarith
  have c: "perform_sensitivity_analysis (map_of [(''lease_years'', PyFloat 30.5)]) = Inl ValidationError"
    using npv_scenario_and_sensitivity [of "map_of [(''lease_years'', PyFloat 30.5)]", THEN conjunct2]
    by (simp add: dict_get_def fl)
  from a b c show ?thesis by (intro conjI)
qed

end
